theory Spec2Isabelle
  imports Complex_Main "HOL-Library.Multiset" "HOL-Library.Word"
begin

section \<open>Exceptions and outcomes\<close>

text \<open>
  The helpers of \<^verbatim>\<open>skypilot_mcp/helpers.py\<close> signal failure by raising. A call is
  modelled by its outcome: the value it returns, or the exception it raises.

  An exception class is a \<open>kind\<close>. The classes that the code names have a constructor
  each; every other class is \<open>OtherClass name\<close>. \<open>type_name\<close> is what
  \<^verbatim>\<open>type(e).__name__\<close> gives.
\<close>

datatype kind =
    ToolError
  | ApiServerAuthenticationError
  | PermissionDeniedError
  | UserRequestRejectedByPolicy
  | ApiServerConnectionError
  | ServerTemporarilyUnavailableError
  | APIVersionMismatchError
  | APINotSupportedError
  | ClusterDoesNotExist
  | ClusterNotUpError
  | ClusterSetUpError
  | InvalidClusterNameError
  | ResourcesUnavailableError
  | CloudError
  | InvalidCloudConfigs
  | InvalidCloudCredentials
  | NoCloudAccessError
  | NetworkError
  | StorageError
  | VolumeNotFoundError
  | VolumeNotReadyError
  | PortDoesNotExistError
  | CommandError
  | NotSupportedError
  | RequestCancelled
  | ValueError
  | TimeoutError
  | RuntimeError
  | Exception
  | OtherClass string

fun type_name :: "kind \<Rightarrow> string" where
  "type_name ToolError = ''ToolError''"
| "type_name ApiServerAuthenticationError = ''ApiServerAuthenticationError''"
| "type_name PermissionDeniedError = ''PermissionDeniedError''"
| "type_name UserRequestRejectedByPolicy = ''UserRequestRejectedByPolicy''"
| "type_name ApiServerConnectionError = ''ApiServerConnectionError''"
| "type_name ServerTemporarilyUnavailableError = ''ServerTemporarilyUnavailableError''"
| "type_name APIVersionMismatchError = ''APIVersionMismatchError''"
| "type_name APINotSupportedError = ''APINotSupportedError''"
| "type_name ClusterDoesNotExist = ''ClusterDoesNotExist''"
| "type_name ClusterNotUpError = ''ClusterNotUpError''"
| "type_name ClusterSetUpError = ''ClusterSetUpError''"
| "type_name InvalidClusterNameError = ''InvalidClusterNameError''"
| "type_name ResourcesUnavailableError = ''ResourcesUnavailableError''"
| "type_name CloudError = ''CloudError''"
| "type_name InvalidCloudConfigs = ''InvalidCloudConfigs''"
| "type_name InvalidCloudCredentials = ''InvalidCloudCredentials''"
| "type_name NoCloudAccessError = ''NoCloudAccessError''"
| "type_name NetworkError = ''NetworkError''"
| "type_name StorageError = ''StorageError''"
| "type_name VolumeNotFoundError = ''VolumeNotFoundError''"
| "type_name VolumeNotReadyError = ''VolumeNotReadyError''"
| "type_name PortDoesNotExistError = ''PortDoesNotExistError''"
| "type_name CommandError = ''CommandError''"
| "type_name NotSupportedError = ''NotSupportedError''"
| "type_name RequestCancelled = ''RequestCancelled''"
| "type_name ValueError = ''ValueError''"
| "type_name TimeoutError = ''TimeoutError''"
| "type_name RuntimeError = ''RuntimeError''"
| "type_name Exception = ''Exception''"
| "type_name (OtherClass n) = n"

text \<open>
  An exception object: its class, the text \<^verbatim>\<open>str(e)\<close> gives for it, and its
  \<^verbatim>\<open>__cause__\<close> (set by \<^verbatim>\<open>raise ... from e\<close>).
\<close>

datatype exn = Exn (exn_kind: kind) (message: string) (cause: "exn option")

datatype 'r outcome = Return 'r | Raise exn

text \<open>
  The class hierarchy lives in the SDK, in fastmcp and in the Python runtime, not in this
  repository, so it is a parameter: \<open>H k\<close> lists the proper ancestors of class \<open>k\<close>.
  An \<^verbatim>\<open>except K\<close> clause catches \<open>e\<close> when \<open>isinstance H e K\<close>.
\<close>

type_synonym hierarchy = "kind \<Rightarrow> kind list"

definition isinstance :: "hierarchy \<Rightarrow> exn \<Rightarrow> kind \<Rightarrow> bool" where
  "isinstance H e K = (K = exn_kind e \<or> K \<in> set (H (exn_kind e)))"

text \<open>
  A hierarchy for the examples: of the runtime's classes \<^verbatim>\<open>KeyboardInterrupt\<close> and
  \<^verbatim>\<open>SystemExit\<close> derive from \<^verbatim>\<open>BaseException\<close> only,
  \<^verbatim>\<open>TimeoutError\<close> derives from \<^verbatim>\<open>OSError\<close>, and every other class is
  taken to derive from \<^verbatim>\<open>Exception\<close> directly.
\<close>

fun example_hierarchy :: hierarchy where
  "example_hierarchy Exception = [OtherClass ''BaseException'']"
| "example_hierarchy TimeoutError = [OtherClass ''OSError'', Exception, OtherClass ''BaseException'']"
| "example_hierarchy (OtherClass n) =
     (if n = ''BaseException'' then []
      else if n = ''KeyboardInterrupt'' \<or> n = ''SystemExit'' then [OtherClass ''BaseException'']
      else [Exception, OtherClass ''BaseException''])"
| "example_hierarchy k = [Exception, OtherClass ''BaseException'']"

section \<open>The error translator\<close>

text \<open>
  \<^verbatim>\<open>raise ToolError(m) from e\<close>.
\<close>

definition tool_error :: "string \<Rightarrow> exn \<Rightarrow> exn" where
  "tool_error m e = Exn ToolError m (Some e)"

text \<open>
  \<^verbatim>\<open>handle_skypilot_error(func)\<close> returns \<^verbatim>\<open>wrapper\<close>, which calls
  \<^verbatim>\<open>func\<close> and runs the \<^verbatim>\<open>except\<close> clauses in the order of the source. An
  exception that no clause catches propagates.
\<close>

definition handle_skypilot_error :: "hierarchy \<Rightarrow> ('a \<Rightarrow> 'r outcome) \<Rightarrow> 'a \<Rightarrow> 'r outcome" where
  "handle_skypilot_error H func args =
    (case func args of
       Return v \<Rightarrow> Return v
     | Raise e \<Rightarrow>
        if isinstance H e ToolError then Raise e
        else if isinstance H e ApiServerAuthenticationError then
          Raise (tool_error (''Authentication required: '' @ message e
                             @ ''. Use skypilot_api_login to authenticate.'') e)
        else if isinstance H e PermissionDeniedError then
          Raise (tool_error (''Permission denied: '' @ message e) e)
        else if isinstance H e UserRequestRejectedByPolicy then
          Raise (tool_error (''Request rejected by admin policy: '' @ message e) e)
        else if isinstance H e ApiServerConnectionError then
          Raise (tool_error (''API server unreachable: '' @ message e) e)
        else if isinstance H e ServerTemporarilyUnavailableError then
          Raise (tool_error (''API server temporarily unavailable (retry later): '' @ message e) e)
        else if isinstance H e APIVersionMismatchError then
          Raise (tool_error (''API version mismatch: '' @ message e) e)
        else if isinstance H e APINotSupportedError then
          Raise (tool_error (''API not supported by server: '' @ message e) e)
        else if isinstance H e ClusterDoesNotExist then
          Raise (tool_error (''Cluster not found: '' @ message e) e)
        else if isinstance H e ClusterNotUpError then
          Raise (tool_error (''Cluster not up: '' @ message e) e)
        else if isinstance H e ClusterSetUpError then
          Raise (tool_error (''Cluster setup failed: '' @ message e) e)
        else if isinstance H e InvalidClusterNameError then
          Raise (tool_error (''Invalid cluster name: '' @ message e) e)
        else if isinstance H e ResourcesUnavailableError then
          Raise (tool_error (''Resources unavailable: '' @ message e) e)
        else if isinstance H e CloudError then
          Raise (tool_error (''Cloud provider error: '' @ message e) e)
        else if isinstance H e InvalidCloudConfigs then
          Raise (tool_error (''Invalid cloud configuration: '' @ message e) e)
        else if isinstance H e InvalidCloudCredentials then
          Raise (tool_error (''Invalid cloud credentials: '' @ message e) e)
        else if isinstance H e NoCloudAccessError then
          Raise (tool_error (''No cloud access: '' @ message e) e)
        else if isinstance H e NetworkError then
          Raise (tool_error (''Network error: '' @ message e) e)
        else if isinstance H e StorageError then
          Raise (tool_error (''Storage error: '' @ message e) e)
        else if isinstance H e VolumeNotFoundError then
          Raise (tool_error (''Volume not found: '' @ message e) e)
        else if isinstance H e VolumeNotReadyError then
          Raise (tool_error (''Volume not ready: '' @ message e) e)
        else if isinstance H e PortDoesNotExistError then
          Raise (tool_error (''Port not found: '' @ message e) e)
        else if isinstance H e CommandError then
          Raise (tool_error (''Command error: '' @ message e) e)
        else if isinstance H e NotSupportedError then
          Raise (tool_error (''Not supported: '' @ message e) e)
        else if isinstance H e RequestCancelled then
          Raise (tool_error (''Request cancelled: '' @ message e) e)
        else if isinstance H e ValueError then
          Raise (tool_error (''Invalid input: '' @ message e) e)
        else if isinstance H e TimeoutError then
          Raise (tool_error (''Timeout: '' @ message e) e)
        else if isinstance H e Exception then
          Raise (tool_error (type_name (exn_kind e) @ '': '' @ message e) e)
        else Raise e)"

text \<open>
  The translation table as the specification gives it: the kind, the text before the
  original message, and the text after it (the remediation hint of the first row; empty
  in every other row).
\<close>

definition translation_table :: "(kind \<times> string \<times> string) list" where
  "translation_table =
    [(ApiServerAuthenticationError, ''Authentication required: '',
        ''. Use skypilot_api_login to authenticate.''),
     (PermissionDeniedError, ''Permission denied: '', []),
     (UserRequestRejectedByPolicy, ''Request rejected by admin policy: '', []),
     (ApiServerConnectionError, ''API server unreachable: '', []),
     (ServerTemporarilyUnavailableError, ''API server temporarily unavailable (retry later): '', []),
     (APIVersionMismatchError, ''API version mismatch: '', []),
     (APINotSupportedError, ''API not supported by server: '', []),
     (ClusterDoesNotExist, ''Cluster not found: '', []),
     (ClusterNotUpError, ''Cluster not up: '', []),
     (ClusterSetUpError, ''Cluster setup failed: '', []),
     (InvalidClusterNameError, ''Invalid cluster name: '', []),
     (ResourcesUnavailableError, ''Resources unavailable: '', []),
     (CloudError, ''Cloud provider error: '', []),
     (InvalidCloudConfigs, ''Invalid cloud configuration: '', []),
     (InvalidCloudCredentials, ''Invalid cloud credentials: '', []),
     (NoCloudAccessError, ''No cloud access: '', []),
     (NetworkError, ''Network error: '', []),
     (StorageError, ''Storage error: '', []),
     (VolumeNotFoundError, ''Volume not found: '', []),
     (VolumeNotReadyError, ''Volume not ready: '', []),
     (PortDoesNotExistError, ''Port not found: '', []),
     (CommandError, ''Command error: '', []),
     (NotSupportedError, ''Not supported: '', []),
     (RequestCancelled, ''Request cancelled: '', []),
     (ValueError, ''Invalid input: '', []),
     (TimeoutError, ''Timeout: '', [])]"

text \<open>The first row of the table whose kind the exception is an instance of.\<close>

fun first_match :: "hierarchy \<Rightarrow> exn \<Rightarrow> (kind \<times> string \<times> string) list \<Rightarrow> (kind \<times> string \<times> string) option" where
  "first_match H e [] = None"
| "first_match H e (row # rows) =
     (if isinstance H e (fst row) then Some row else first_match H e rows)"

text \<open>Functions of the examples: each raises one fixed exception.\<close>

definition raise_resources_unavailable :: "unit \<Rightarrow> unit outcome" where
  "raise_resources_unavailable u = Raise (Exn ResourcesUnavailableError ''no A100s'' None)"

definition raise_system_exit :: "unit \<Rightarrow> unit outcome" where
  "raise_system_exit u = Raise (Exn (OtherClass ''SystemExit'') ''1'' None)"

definition raise_already_handled :: "unit \<Rightarrow> unit outcome" where
  "raise_already_handled u = Raise (Exn ToolError ''already handled'' None)"

section \<open>Text\<close>

text \<open>
  Messages and identifiers are Isabelle strings, one \<open>char\<close> per code point below 256.
  \<open>str_int\<close> is \<^verbatim>\<open>str\<close> on an int, \<open>str_opt_int\<close> on an int or \<^verbatim>\<open>None\<close>.
\<close>

fun str_nat :: "nat \<Rightarrow> string" where
  "str_nat n =
     (if n < 10 then [''0123456789'' ! n] else str_nat (n div 10) @ [''0123456789'' ! (n mod 10)])"

declare str_nat.simps [simp del]

definition str_int :: "int \<Rightarrow> string" where
  "str_int i = (if i < 0 then CHR ''-'' # str_nat (nat (- i)) else str_nat (nat i))"

definition str_opt_int :: "int option \<Rightarrow> string" where
  "str_opt_int v = (case v of None \<Rightarrow> ''None'' | Some i \<Rightarrow> str_int i)"

text \<open>
  \<^verbatim>\<open>repr\<close> on a str, as the \<^verbatim>\<open>!r\<close> conversion of an f-string applies it: the text
  in single quotes (in double quotes when it holds a single quote and no double quote),
  with the quote, the backslash, tab, newline, carriage return and the non-printable code
  points escaped.
\<close>

definition hex_digit :: "nat \<Rightarrow> char" where
  "hex_digit d = ''0123456789abcdef'' ! d"

definition repr_char :: "char \<Rightarrow> char \<Rightarrow> string" where
  "repr_char q c =
     (let n = (of_char c :: nat) in
      if c = q \<or> c = CHR 0x5C then [CHR 0x5C, c]
      else if c = CHR 0x09 then [CHR 0x5C, CHR ''t'']
      else if c = CHR 0x0A then [CHR 0x5C, CHR ''n'']
      else if c = CHR 0x0D then [CHR 0x5C, CHR ''r'']
      else if n < 32 \<or> (127 \<le> n \<and> n \<le> 160) \<or> n = 173
        then [CHR 0x5C, CHR ''x'', hex_digit (n div 16), hex_digit (n mod 16)]
      else [c])"

definition py_repr :: "string \<Rightarrow> string" where
  "py_repr s =
     (let q = (if CHR 0x27 \<in> set s \<and> CHR 0x22 \<notin> set s then CHR 0x22 else CHR 0x27)
      in q # concat (map (repr_char q) s) @ [q])"

text \<open>\<^verbatim>\<open>sub in s\<close> on two strs.\<close>

fun contains :: "'a list \<Rightarrow> 'a list \<Rightarrow> bool" where
  "contains sub [] = (sub = [])"
| "contains sub (c # cs) = (take (length sub) (c # cs) = sub \<or> contains sub cs)"

section \<open>Parsing entry points\<close>

text \<open>
  The YAML text is a list of Unicode code points (or \<^verbatim>\<open>None\<close>, which the docstrings
  provide for). \<open>py_isspace\<close> is the set of code points that \<^verbatim>\<open>str.strip()\<close> removes.
\<close>

type_synonym unicode = "nat list"

definition py_isspace :: "nat \<Rightarrow> bool" where
  "py_isspace c =
     ((9 \<le> c \<and> c \<le> 13) \<or> (28 \<le> c \<and> c \<le> 32) \<or> c = 0x85 \<or> c = 0xA0 \<or> c = 0x1680
      \<or> (0x2000 \<le> c \<and> c \<le> 0x200A) \<or> c = 0x2028 \<or> c = 0x2029 \<or> c = 0x202F
      \<or> c = 0x205F \<or> c = 0x3000)"

definition py_strip :: "unicode \<Rightarrow> unicode" where
  "py_strip s = rev (dropWhile py_isspace (rev (dropWhile py_isspace s)))"

text \<open>
  The SDK's parser is a parameter. Each entry point returns the list of the arguments
  with which it called the parser, and its outcome. The test is
  \<^verbatim>\<open>not yaml_str or not yaml_str.strip()\<close>.
\<close>

definition create_task_from_yaml ::
  "(unicode \<Rightarrow> 't outcome) \<Rightarrow> unicode option \<Rightarrow> unicode list \<times> 't outcome" where
  "create_task_from_yaml from_yaml_str yaml_str =
     (case yaml_str of
        None \<Rightarrow> ([], Raise (Exn ValueError ''task_yaml must be a non-empty YAML string.'' None))
      | Some s \<Rightarrow>
          if s = [] \<or> py_strip s = []
          then ([], Raise (Exn ValueError ''task_yaml must be a non-empty YAML string.'' None))
          else ([s], from_yaml_str s))"

definition load_dag_from_yaml ::
  "(unicode \<Rightarrow> 'd outcome) \<Rightarrow> unicode option \<Rightarrow> unicode list \<times> 'd outcome" where
  "load_dag_from_yaml load_chain_dag_from_yaml_str yaml_str =
     (case yaml_str of
        None \<Rightarrow> ([], Raise (Exn ValueError ''task_yaml must be a non-empty YAML string.'' None))
      | Some s \<Rightarrow>
          if s = [] \<or> py_strip s = []
          then ([], Raise (Exn ValueError ''task_yaml must be a non-empty YAML string.'' None))
          else ([s], load_chain_dag_from_yaml_str s))"

text \<open>A parser of the examples.\<close>

definition example_parser :: "unicode \<Rightarrow> unicode outcome" where
  "example_parser s = Return s"

section \<open>The request resolver\<close>

text \<open>
  What \<^verbatim>\<open>sky.get(request_id)\<close> does on the worker thread: it returns or raises
  \<open>d\<close> seconds after it was submitted, or it never comes back.
\<close>

datatype 'r fetch = Finishes nat "'r outcome" | Blocks

definition DEFAULT_RESOLVE_TIMEOUT :: int where
  "DEFAULT_RESOLVE_TIMEOUT = 580"

text \<open>The timeout of an MCP tool call that the comment on the default names.\<close>

definition MCP_TOOL_TIMEOUT :: int where
  "MCP_TOOL_TIMEOUT = 600"

text \<open>
  \<^verbatim>\<open>future.result(timeout=timeout)\<close>: the time at which the caller gets control back,
  and what it gets. \<open>futures_timeout\<close> is the class \<^verbatim>\<open>concurrent.futures.TimeoutError\<close>
  (the builtin \<^verbatim>\<open>TimeoutError\<close> from Python 3.11 on, a class of its own before).
\<close>

definition future_result :: "kind \<Rightarrow> 'r fetch \<Rightarrow> int \<Rightarrow> nat \<times> 'r outcome" where
  "future_result futures_timeout fetch timeout =
     (case fetch of
        Finishes d r \<Rightarrow>
          if int d \<le> timeout then (d, r) else (nat timeout, Raise (Exn futures_timeout [] None))
      | Blocks \<Rightarrow> (nat timeout, Raise (Exn futures_timeout [] None)))"

text \<open>
  Leaving the \<^verbatim>\<open>with ThreadPoolExecutor(...)\<close> block runs \<^verbatim>\<open>shutdown(wait=True)\<close>,
  which joins the worker thread. \<^verbatim>\<open>future.cancel()\<close> does not stop a call that is
  already running. Entered at time \<open>t\<close>, the exit completes when the fetch is over, and
  never when it is not.
\<close>

definition executor_exit :: "'r fetch \<Rightarrow> nat \<Rightarrow> nat option" where
  "executor_exit fetch t = (case fetch of Finishes d r \<Rightarrow> Some (max t d) | Blocks \<Rightarrow> None)"

definition timeout_message :: "string \<Rightarrow> int \<Rightarrow> string" where
  "timeout_message request_id timeout =
     ''Request '' @ request_id @ '' did not complete within '' @ str_int timeout @ ''s. ''
     @ ''The request may still be running on the server. ''
     @ ''Use skypilot_api_status to check its status.''"

text \<open>
  \<open>None\<close>: the call never returns. \<open>Some (t, r)\<close>: it returns or raises \<open>r\<close>, \<open>t\<close> seconds
  after it was entered.
\<close>

definition resolve_request ::
  "kind \<Rightarrow> hierarchy \<Rightarrow> string \<Rightarrow> int \<Rightarrow> 'r fetch \<Rightarrow> (nat \<times> 'r outcome) option" where
  "resolve_request futures_timeout H request_id timeout fetch =
     (let (t, r) = future_result futures_timeout fetch timeout;
          out = (case r of
                   Return v \<Rightarrow> Return v
                 | Raise e \<Rightarrow>
                     if isinstance H e futures_timeout
                     then Raise (Exn TimeoutError (timeout_message request_id timeout) None)
                     else Raise e)
      in map_option (\<lambda>t'. (t', out)) (executor_exit fetch t))"

section \<open>Log capture\<close>

text \<open>
  The arguments of each SDK call (the output stream apart: it is the buffer). A
  \<^verbatim>\<open>tail\<close> argument is an int or \<^verbatim>\<open>None\<close>.
\<close>

record tail_logs_call =
  tl_cluster_name :: string
  tl_job_id :: "int option"
  tl_follow :: bool
  tl_tail :: "int option"

datatype task_ref = TaskName string | TaskIndex int

record jobs_tail_logs_call =
  jt_name :: "string option"
  jt_job_id :: "int option"
  jt_follow :: bool
  jt_controller :: bool
  jt_refresh :: bool
  jt_task :: "task_ref option"
  jt_tail :: "int option"

record serve_tail_logs_call =
  st_service_name :: string
  st_target :: string
  st_replica_id :: "int option"
  st_follow :: bool
  st_tail :: "int option"

record pool_tail_logs_call =
  pt_pool_name :: string
  pt_target :: string
  pt_worker_id :: "int option"
  pt_follow :: bool
  pt_tail :: "int option"

record tail_autostop_logs_call =
  ta_cluster_name :: string
  ta_follow :: bool
  ta_tail :: "int option"

text \<open>
  An SDK call is a function from its arguments to its outcome: it raises, or it returns
  a value together with the text it wrote to the buffer. Each adapter returns the call
  it made and its own outcome.
\<close>

type_synonym ('c, 'x) sdk = "'c \<Rightarrow> ('x \<times> string) outcome"

definition capture_cluster_logs ::
  "(tail_logs_call, int) sdk \<Rightarrow> string \<Rightarrow> int option \<Rightarrow> int \<Rightarrow> tail_logs_call \<times> string outcome" where
  "capture_cluster_logs sky_tail_logs cluster_name job_id tail =
     (let call = \<lparr>tl_cluster_name = cluster_name, tl_job_id = job_id, tl_follow = False,
                  tl_tail = Some tail\<rparr>
      in (call,
          case sky_tail_logs call of
            Raise e \<Rightarrow> Raise e
          | Return (exit_code, buf) \<Rightarrow>
              if exit_code \<noteq> 0
              then Raise (Exn RuntimeError
                     (''Failed to retrieve logs for cluster '' @ py_repr cluster_name
                      @ '' (job_id='' @ str_opt_int job_id
                      @ ''): tail_logs returned exit code '' @ str_int exit_code @ ''.'') None)
              else Return buf))"

text \<open>\<^verbatim>\<open>name or job_id\<close>, formatted.\<close>

definition identifier_text :: "string option \<Rightarrow> int option \<Rightarrow> string" where
  "identifier_text name job_id =
     (case name of
        Some n \<Rightarrow> if n \<noteq> [] then n else str_opt_int job_id
      | None \<Rightarrow> str_opt_int job_id)"

definition capture_managed_job_logs ::
  "(jobs_tail_logs_call, int) sdk \<Rightarrow> string option \<Rightarrow> int option \<Rightarrow> bool \<Rightarrow> bool
     \<Rightarrow> task_ref option \<Rightarrow> int \<Rightarrow> jobs_tail_logs_call \<times> string outcome" where
  "capture_managed_job_logs jobs_tail_logs name job_id controller refresh task tail =
     (let sdk_tail = (if tail = 0 then None else Some tail);
          call = \<lparr>jt_name = name, jt_job_id = job_id, jt_follow = False,
                  jt_controller = controller, jt_refresh = refresh, jt_task = task,
                  jt_tail = sdk_tail\<rparr>
      in (call,
          case jobs_tail_logs call of
            Raise e \<Rightarrow> Raise e
          | Return (exit_code, buf) \<Rightarrow>
              if exit_code \<noteq> 0
              then Raise (Exn RuntimeError
                     (''Failed to retrieve managed job logs ('' @ identifier_text name job_id
                      @ ''): tail_logs returned exit code '' @ str_int exit_code @ ''.'') None)
              else Return buf))"

definition capture_serve_logs ::
  "(serve_tail_logs_call, 'x) sdk \<Rightarrow> string \<Rightarrow> string \<Rightarrow> int option \<Rightarrow> int
     \<Rightarrow> serve_tail_logs_call \<times> string outcome" where
  "capture_serve_logs serve_tail_logs service_name target replica_id tail =
     (let sdk_tail = (if tail = 0 then None else Some tail);
          call = \<lparr>st_service_name = service_name, st_target = target,
                  st_replica_id = replica_id, st_follow = False, st_tail = sdk_tail\<rparr>
      in (call,
          case serve_tail_logs call of
            Raise e \<Rightarrow> Raise e
          | Return (ignored, buf) \<Rightarrow> Return buf))"

definition capture_pool_logs ::
  "(pool_tail_logs_call, 'x) sdk \<Rightarrow> string \<Rightarrow> string \<Rightarrow> int option \<Rightarrow> int
     \<Rightarrow> pool_tail_logs_call \<times> string outcome" where
  "capture_pool_logs pool_tail_logs pool_name target worker_id tail =
     (let sdk_tail = (if tail = 0 then None else Some tail);
          call = \<lparr>pt_pool_name = pool_name, pt_target = target,
                  pt_worker_id = worker_id, pt_follow = False, pt_tail = sdk_tail\<rparr>
      in (call,
          case pool_tail_logs call of
            Raise e \<Rightarrow> Raise e
          | Return (ignored, buf) \<Rightarrow> Return buf))"

text \<open>
  The body of the tool \<^verbatim>\<open>skypilot_tail_autostop_logs\<close> (\<^verbatim>\<open>tools/logs.py\<close>), inside
  its decorators: standard output and standard error are redirected to the buffer under
  the lock, and the buffer is read after the call.
\<close>

definition skypilot_tail_autostop_logs ::
  "(tail_autostop_logs_call, int) sdk \<Rightarrow> string \<Rightarrow> int
     \<Rightarrow> tail_autostop_logs_call \<times> string outcome" where
  "skypilot_tail_autostop_logs tail_autostop_logs cluster_name tail =
     (let call = \<lparr>ta_cluster_name = cluster_name, ta_follow = False, ta_tail = Some tail\<rparr>
      in (call,
          case tail_autostop_logs call of
            Raise e \<Rightarrow> Raise e
          | Return (exit_code, output) \<Rightarrow>
              if exit_code \<noteq> 0
              then Raise (Exn RuntimeError
                     (''Failed to retrieve autostop logs for cluster '' @ py_repr cluster_name
                      @ '': exit code '' @ str_int exit_code @ ''.''
                      @ (if output \<noteq> [] then [CHR 0x0A] @ ''Output: '' @ output else [])) None)
              else Return output))"

text \<open>SDK calls of the examples.\<close>

definition sdk_fails :: "('c, int) sdk" where
  "sdk_fails call = Return (1, ''boom'')"

definition sdk_writes :: "('c, int) sdk" where
  "sdk_writes call = Return (0, ''log line'')"

section \<open>The serializer\<close>

subsection \<open>Values\<close>

text \<open>
  The values that \<^verbatim>\<open>_make_serializable\<close> tells apart, one constructor for each rule
  of its chain; a value belongs to the first rule that matches it. An object that the
  code only observes through a call carries what the call gives: a Pydantic model its
  \<^verbatim>\<open>model_dump()\<close> (or \<^verbatim>\<open>dict()\<close>), a dataclass instance its declared fields in
  order, an enum member its \<^verbatim>\<open>value\<close>, a set its elements in iteration order, a dict
  its items in order, a path and any other object the text \<^verbatim>\<open>str()\<close> gives. A dict key
  is a str, or another hashable with the text \<^verbatim>\<open>str()\<close> gives for it. A float is the
  number it stands for (no NaN, no infinities).
\<close>

type_synonym byte = "8 word"

datatype pykey = KStr unicode | KOther unicode

fun key_str :: "pykey \<Rightarrow> unicode" where
  "key_str (KStr s) = s"
| "key_str (KOther s) = s"

fun is_str_key :: "pykey \<Rightarrow> bool" where
  "is_str_key (KStr s) = True"
| "is_str_key (KOther s) = False"

datatype pyval =
    PNone
  | PBool bool
  | PInt int
  | PFloat real
  | PStr unicode
  | PydanticV2 pyval
  | PydanticV1 pyval
  | PDataclass "(unicode \<times> pyval) list"
  | PEnum pyval
  | PSet "pyval list"
  | PDict "(pykey \<times> pyval) list"
  | PList "pyval list"
  | PTuple "pyval list"
  | PBytes "byte list"
  | PPath unicode
  | PObject unicode

subsection \<open>Library functions the serializer calls\<close>

text \<open>
  \<^verbatim>\<open>sorted\<close> is the interpreter's, and a parameter of the model: a \<open>sorter\<close> is any
  function that gives, for a list, a rearrangement of it, or \<open>None\<close> for the
  \<^verbatim>\<open>TypeError\<close> of a comparison (the one exception that the rule for sets catches).
  Which elements it compares, and in which order, is left open.
\<close>

typedef sorter = "{f :: pyval list \<Rightarrow> pyval list option. \<forall>xs ys. f xs = Some ys \<longrightarrow> mset ys = mset xs}"
  morphisms run_sorted Sorter
  by (rule exI [of _ "\<lambda>xs. None"]) simp

setup_lifting type_definition_sorter

lemma run_sorted_mset: "run_sorted srt xs = Some ys \<Longrightarrow> mset ys = mset xs"
  using run_sorted [of srt] by simp

lemma run_sorted_set: "run_sorted srt xs = Some ys \<Longrightarrow> set ys = set xs"
  by (rule mset_eq_setD) (rule run_sorted_mset)

text \<open>
  The elements of \<open>xs\<close> are mutually orderable under the comparison \<open>lt\<close>
  (\<open>lt x y = None\<close> stands for a \<^verbatim>\<open>TypeError\<close> of \<^verbatim>\<open>x < y\<close>): every two of them can
  be compared, and on them \<open>lt\<close> is a strict weak order (asymmetric, and "not greater" is
  transitive).
\<close>

definition mutually_orderable :: "('a \<Rightarrow> 'a \<Rightarrow> bool option) \<Rightarrow> 'a list \<Rightarrow> bool" where
  "mutually_orderable lt xs =
     ((\<forall>a\<in>set xs. \<forall>b\<in>set xs. lt a b \<noteq> None)
      \<and> (\<forall>a\<in>set xs. \<forall>b\<in>set xs. lt a b = Some True \<longrightarrow> lt b a = Some False)
      \<and> (\<forall>a\<in>set xs. \<forall>b\<in>set xs. \<forall>c\<in>set xs.
            lt b a = Some False \<longrightarrow> lt c b = Some False \<longrightarrow> lt c a = Some False))"

text \<open>
  What \<^verbatim>\<open>sorted\<close> promises where \<^verbatim>\<open><\<close> is \<open>lt\<close>: on mutually orderable elements it
  does not raise, and in its result no element is less than an earlier one.
\<close>

definition sorts_orderable :: "(pyval \<Rightarrow> pyval \<Rightarrow> bool option) \<Rightarrow> sorter \<Rightarrow> bool" where
  "sorts_orderable lt srt =
     (\<forall>xs. mutually_orderable lt xs \<longrightarrow>
        (\<exists>ys. run_sorted srt xs = Some ys \<and> sorted_wrt (\<lambda>a b. lt b a = Some False) ys))"

text \<open>
  A sorter for the examples: a stable insertion sort, which stops at the first
  comparison that raises. On mutually orderable elements every stable sort gives its
  result; elsewhere the interpreter's \<^verbatim>\<open>sorted\<close> may compare other pairs.
\<close>

fun insert_sorted :: "('a \<Rightarrow> 'a \<Rightarrow> bool option) \<Rightarrow> 'a \<Rightarrow> 'a list \<Rightarrow> 'a list option" where
  "insert_sorted lt x [] = Some [x]"
| "insert_sorted lt x (y # ys) =
     (case lt x y of
        None \<Rightarrow> None
      | Some True \<Rightarrow> Some (x # y # ys)
      | Some False \<Rightarrow> map_option ((#) y) (insert_sorted lt x ys))"

fun sorted_onto :: "('a \<Rightarrow> 'a \<Rightarrow> bool option) \<Rightarrow> 'a list \<Rightarrow> 'a list \<Rightarrow> 'a list option" where
  "sorted_onto lt acc [] = Some acc"
| "sorted_onto lt acc (x # xs) =
     (case insert_sorted lt x acc of
        None \<Rightarrow> None
      | Some acc' \<Rightarrow> sorted_onto lt acc' xs)"

definition insertion_sort :: "('a \<Rightarrow> 'a \<Rightarrow> bool option) \<Rightarrow> 'a list \<Rightarrow> 'a list option" where
  "insertion_sort lt xs = sorted_onto lt [] xs"

lemma insert_sorted_mset:
  "insert_sorted lt x ys = Some zs \<Longrightarrow> mset zs = add_mset x (mset ys)"
  by (induction ys arbitrary: zs) (auto split: option.splits bool.splits)

lemma sorted_onto_mset:
  "sorted_onto lt acc xs = Some zs \<Longrightarrow> mset zs = mset acc + mset xs"
  by (induction xs arbitrary: acc zs) (auto split: option.splits dest: insert_sorted_mset)

lemma insertion_sort_mset: "insertion_sort lt xs = Some zs \<Longrightarrow> mset zs = mset xs"
  by (simp add: insertion_sort_def sorted_onto_mset)

lift_definition insertion_sorter :: "(pyval \<Rightarrow> pyval \<Rightarrow> bool option) \<Rightarrow> sorter" is insertion_sort
  by (simp add: insertion_sort_mset)

text \<open>
  A dict built by a comprehension: the items are stored one after the other; storing
  under a key that is present replaces the value and keeps the key's place.
\<close>

fun dict_setitem :: "('k \<times> 'v) list \<Rightarrow> 'k \<Rightarrow> 'v \<Rightarrow> ('k \<times> 'v) list" where
  "dict_setitem [] k v = [(k, v)]"
| "dict_setitem ((k', v') # d) k v =
     (if k' = k then (k', v) # d else (k', v') # dict_setitem d k v)"

definition dict_of_items :: "('k \<times> 'v) list \<Rightarrow> ('k \<times> 'v) list" where
  "dict_of_items items = foldl (\<lambda>d (k, v). dict_setitem d k v) [] items"

text \<open>
  \<^verbatim>\<open>bytes.decode("utf-8")\<close>: the code points of a well-formed UTF-8 sequence (no
  overlong form, no surrogate, nothing above U+10FFFF); \<open>None\<close> stands for
  \<^verbatim>\<open>UnicodeDecodeError\<close>.
\<close>

definition continuation :: "nat \<Rightarrow> bool" where
  "continuation b = (0x80 \<le> b \<and> b \<le> 0xBF)"

definition second_ok :: "nat \<Rightarrow> nat \<Rightarrow> bool" where
  "second_ok b0 b1 =
     (if b0 = 0xE0 then 0xA0 \<le> b1 \<and> b1 \<le> 0xBF
      else if b0 = 0xED then 0x80 \<le> b1 \<and> b1 \<le> 0x9F
      else if b0 = 0xF0 then 0x90 \<le> b1 \<and> b1 \<le> 0xBF
      else if b0 = 0xF4 then 0x80 \<le> b1 \<and> b1 \<le> 0x8F
      else continuation b1)"

fun utf8_decode_nat :: "nat list \<Rightarrow> unicode option" where
  "utf8_decode_nat [] = Some []"
| "utf8_decode_nat (b0 # bs) =
     (if b0 < 0x80 then map_option ((#) b0) (utf8_decode_nat bs)
      else if 0xC2 \<le> b0 \<and> b0 \<le> 0xDF then
        (case bs of
           b1 # r \<Rightarrow>
             if continuation b1
             then map_option ((#) ((b0 - 0xC0) * 64 + (b1 - 0x80))) (utf8_decode_nat r)
             else None
         | _ \<Rightarrow> None)
      else if 0xE0 \<le> b0 \<and> b0 \<le> 0xEF then
        (case bs of
           b1 # b2 # r \<Rightarrow>
             if second_ok b0 b1 \<and> continuation b2
             then map_option ((#) ((b0 - 0xE0) * 4096 + (b1 - 0x80) * 64 + (b2 - 0x80)))
                    (utf8_decode_nat r)
             else None
         | _ \<Rightarrow> None)
      else if 0xF0 \<le> b0 \<and> b0 \<le> 0xF4 then
        (case bs of
           b1 # b2 # b3 # r \<Rightarrow>
             if second_ok b0 b1 \<and> continuation b2 \<and> continuation b3
             then map_option
                    ((#) ((b0 - 0xF0) * 262144 + (b1 - 0x80) * 4096 + (b2 - 0x80) * 64
                          + (b3 - 0x80)))
                    (utf8_decode_nat r)
             else None
         | _ \<Rightarrow> None)
      else None)"

definition utf8_decode :: "byte list \<Rightarrow> unicode option" where
  "utf8_decode bs = utf8_decode_nat (map unat bs)"

text \<open>
  \<^verbatim>\<open>base64.b64encode\<close> and \<^verbatim>\<open>base64.b64decode\<close> (RFC 4648, the standard alphabet,
  with padding). The decoder stands for the library's on text made of alphabet
  characters and padding only; \<open>None\<close> stands for its error.
\<close>

definition b64_char :: "nat \<Rightarrow> char" where
  "b64_char n =
     (if n < 26 then char_of (65 + n)
      else if n < 52 then char_of (71 + n)
      else if n < 62 then char_of (n - 4)
      else if n = 62 then CHR ''+''
      else CHR ''/'')"


fun b64encode_nat :: "nat list \<Rightarrow> string" where
  "b64encode_nat [] = []"
| "b64encode_nat [a] =
     [b64_char (a div 4), b64_char ((a mod 4) * 16), CHR ''='', CHR ''='']"
| "b64encode_nat [a, b] =
     [b64_char (a div 4), b64_char ((a mod 4) * 16 + b div 16), b64_char ((b mod 16) * 4),
      CHR ''='']"
| "b64encode_nat (a # b # c # rest) =
     [b64_char (a div 4), b64_char ((a mod 4) * 16 + b div 16),
      b64_char ((b mod 16) * 4 + c div 64), b64_char (c mod 64)] @ b64encode_nat rest"

definition b64encode :: "byte list \<Rightarrow> string" where
  "b64encode bs = b64encode_nat (map unat bs)"




subsection \<open>\<^verbatim>\<open>_make_serializable\<close>\<close>

text \<open>
  The fallback rule tries \<^verbatim>\<open>json.dumps(obj)\<close> first. The encoder accepts
  \<^verbatim>\<open>None\<close>, bool, int, float, str, list, tuple and dict only, all of them matched by
  earlier rules, so for an object that reaches the fallback it raises \<^verbatim>\<open>TypeError\<close>
  and the rule gives \<^verbatim>\<open>str(obj)\<close>. The first argument of the model is the
  interpreter's \<^verbatim>\<open>sorted\<close>, which the rule for sets calls on the set.
\<close>

lemma size_snd_in_set: "(k, v) \<in> set kvs \<Longrightarrow> size v < Suc (size_list (size_prod (\<lambda>_. 0) size) kvs)"
  by (induction kvs) auto

lemma size_in_set: "x \<in> set xs \<Longrightarrow> size x < Suc (size_list size xs)"
  by (induction xs) auto

function (sequential) make_serializable :: "sorter \<Rightarrow> pyval \<Rightarrow> pyval" where
  "make_serializable srt PNone = PNone"
| "make_serializable srt (PBool b) = PBool b"
| "make_serializable srt (PInt i) = PInt i"
| "make_serializable srt (PFloat x) = PFloat x"
| "make_serializable srt (PStr s) = PStr s"
| "make_serializable srt (PydanticV2 dumped) = make_serializable srt dumped"
| "make_serializable srt (PydanticV1 dumped) = make_serializable srt dumped"
| "make_serializable srt (PDataclass field_values) =
     PDict (dict_of_items (map (\<lambda>(name, v). (KStr name, make_serializable srt v)) field_values))"
| "make_serializable srt (PEnum v) = v"
| "make_serializable srt (PSet items) =
     (case run_sorted srt items of
        Some sorted_items \<Rightarrow> PList (map (make_serializable srt) sorted_items)
      | None \<Rightarrow> PList (map (make_serializable srt) items))"
| "make_serializable srt (PDict d) =
     PDict (dict_of_items (map (\<lambda>(k, v). (KStr (key_str k), make_serializable srt v)) d))"
| "make_serializable srt (PList xs) = PList (map (make_serializable srt) xs)"
| "make_serializable srt (PTuple xs) = PList (map (make_serializable srt) xs)"
| "make_serializable srt (PBytes bs) =
     (case utf8_decode bs of
        Some s \<Rightarrow> PStr s
      | None \<Rightarrow> PStr (map of_char (b64encode bs)))"
| "make_serializable srt (PPath s) = PStr s"
| "make_serializable srt (PObject s) = PStr s"
  by pat_completeness auto

termination make_serializable
  apply (relation "measure (\<lambda>(srt, v). size v)")
  apply (auto dest: size_snd_in_set size_in_set run_sorted_set)
  done

text \<open>The canonical values: what JSON has.\<close>

fun canonical :: "pyval \<Rightarrow> bool" where
  "canonical PNone = True"
| "canonical (PBool b) = True"
| "canonical (PInt i) = True"
| "canonical (PFloat x) = True"
| "canonical (PStr s) = True"
| "canonical (PList xs) = list_all canonical xs"
| "canonical (PDict d) = list_all (\<lambda>(k, v). is_str_key k \<and> canonical v) d"
| "canonical v = False"

text \<open>
  Two conditions on a value. \<open>enum_values_canonical\<close>: wherever the serializer meets an
  enum member, the member's value is canonical already. \<open>keys_distinct\<close>: no dict of a
  canonical value lists a key twice (as every dict of the program does).
\<close>

function (sequential) enum_values_canonical :: "pyval \<Rightarrow> bool" where
  "enum_values_canonical (PEnum v) = canonical v"
| "enum_values_canonical (PydanticV2 dumped) = enum_values_canonical dumped"
| "enum_values_canonical (PydanticV1 dumped) = enum_values_canonical dumped"
| "enum_values_canonical (PDataclass field_values) =
     list_all (\<lambda>(name, v). enum_values_canonical v) field_values"
| "enum_values_canonical (PSet items) = list_all enum_values_canonical items"
| "enum_values_canonical (PDict d) = list_all (\<lambda>(k, v). enum_values_canonical v) d"
| "enum_values_canonical (PList xs) = list_all enum_values_canonical xs"
| "enum_values_canonical (PTuple xs) = list_all enum_values_canonical xs"
| "enum_values_canonical v = True"
  by pat_completeness auto

termination enum_values_canonical
  apply (relation "measure size")
  apply (auto dest: size_snd_in_set size_in_set)
  done

fun keys_distinct :: "pyval \<Rightarrow> bool" where
  "keys_distinct (PList xs) = list_all keys_distinct xs"
| "keys_distinct (PDict d) = (distinct (map fst d) \<and> list_all (\<lambda>(k, v). keys_distinct v) d)"
| "keys_distinct v = True"

text \<open>
  A comparison for the examples: \<^verbatim>\<open><\<close> on two ints, on two strs (by code point) and
  on two byte strings (by byte). The one other pair which the examples compare is an int
  with a str, a \<^verbatim>\<open>TypeError\<close>.
\<close>

fun lex_less :: "nat list \<Rightarrow> nat list \<Rightarrow> bool" where
  "lex_less [] [] = False"
| "lex_less [] (y # ys) = True"
| "lex_less (x # xs) [] = False"
| "lex_less (x # xs) (y # ys) = (x < y \<or> (x = y \<and> lex_less xs ys))"

fun example_lt :: "pyval \<Rightarrow> pyval \<Rightarrow> bool option" where
  "example_lt (PInt a) (PInt b) = Some (a < b)"
| "example_lt (PStr a) (PStr b) = Some (lex_less a b)"
| "example_lt (PBytes a) (PBytes b) = Some (lex_less (map unat a) (map unat b))"
| "example_lt a b = None"

definition example_sorted :: sorter where
  "example_sorted = insertion_sorter example_lt"

section \<open>Properties of the error translator\<close>

lemma handle_skypilot_error_Return:
  "func args = Return v \<Longrightarrow> handle_skypilot_error H func args = Return v"
  by (simp add: handle_skypilot_error_def)

lemma handle_skypilot_error_ToolError:
  "func args = Raise e \<Longrightarrow> isinstance H e ToolError \<Longrightarrow> handle_skypilot_error H func args = Raise e"
  by (simp add: handle_skypilot_error_def)

lemma isinstance_tool_error: "isinstance H (tool_error m e) ToolError"
  by (simp add: isinstance_def tool_error_def)

lemma handle_skypilot_error_by_table:
  assumes "func args = Raise e" and "\<not> isinstance H e ToolError"
  shows "handle_skypilot_error H func args =
     (case first_match H e translation_table of
        Some (k, prefix, hint) \<Rightarrow> Raise (tool_error (prefix @ message e @ hint) e)
      | None \<Rightarrow> if isinstance H e Exception
               then Raise (tool_error (type_name (exn_kind e) @ '': '' @ message e) e)
               else Raise e)"
  using assms by (simp add: handle_skypilot_error_def translation_table_def)

lemma handle_skypilot_error_shape:
  assumes "func args = Raise e"
  shows "handle_skypilot_error H func args = Raise e
         \<or> (\<exists>m. handle_skypilot_error H func args = Raise (tool_error m e))"
proof (cases "isinstance H e ToolError")
  case True
  with assms show ?thesis by (simp add: handle_skypilot_error_ToolError)
next
  case False
  show ?thesis
    unfolding handle_skypilot_error_by_table [where func = func and args = args, OF assms False]
    by (auto split: option.splits)
qed

lemma handle_skypilot_error_cong:
  "g args = func args \<Longrightarrow> handle_skypilot_error H g args = handle_skypilot_error H func args"
  by (simp add: handle_skypilot_error_def)

lemma handle_skypilot_error_twice:
  "handle_skypilot_error H (handle_skypilot_error H func) args = handle_skypilot_error H func args"
proof (cases "func args")
  case (Return v)
  then have "handle_skypilot_error H func args = Return v"
    by (rule handle_skypilot_error_Return)
  then show ?thesis by (simp add: handle_skypilot_error_Return)
next
  case (Raise e)
  from handle_skypilot_error_shape [where func = func and args = args and H = H, OF Raise]
  show ?thesis
  proof
    assume same: "handle_skypilot_error H func args = Raise e"
    then have "handle_skypilot_error H func args = func args" using Raise by simp
    then show ?thesis by (rule handle_skypilot_error_cong)
  next
    assume "\<exists>m. handle_skypilot_error H func args = Raise (tool_error m e)"
    then obtain m where m: "handle_skypilot_error H func args = Raise (tool_error m e)" ..
    show ?thesis
      using handle_skypilot_error_ToolError [where func = "handle_skypilot_error H func" and args = args, OF m isinstance_tool_error] m by simp
  qed
qed

text \<open>
  Claim C1, as amended. A function wrapped by \<open>handle_skypilot_error\<close> raises \<open>e\<close>, not a
  \<^verbatim>\<open>ToolError\<close>. When \<open>e\<close> is an instance of a kind of the translation table, the
  wrapper raises a \<^verbatim>\<open>ToolError\<close> (with cause \<open>e\<close>) whose message is the prefix of the
  first such row, then the message of \<open>e\<close>, then the hint of that row (empty but for the
  authentication row). When \<open>e\<close> is an instance of no kind of the table and is an
  \<^verbatim>\<open>Exception\<close>, the wrapper raises a \<^verbatim>\<open>ToolError\<close> whose message is the name of the
  class of \<open>e\<close>, a colon and a space, and the message of \<open>e\<close>. When \<open>e\<close> is not an
  \<^verbatim>\<open>Exception\<close> either, no clause catches it and \<open>e\<close> itself propagates.
\<close>

theorem handle_skypilot_error_translation:
  assumes "func args = Raise e" and "\<not> isinstance H e ToolError"
  shows "handle_skypilot_error H func args =
     (case first_match H e translation_table of
        Some (k, prefix, hint) \<Rightarrow> Raise (Exn ToolError (prefix @ message e @ hint) (Some e))
      | None \<Rightarrow> if isinstance H e Exception
               then Raise (Exn ToolError (type_name (exn_kind e) @ '': '' @ message e) (Some e))
               else Raise e)"
  using handle_skypilot_error_by_table [where func = func and args = args, OF assms] by (simp add: tool_error_def split: option.splits)

theorem handle_skypilot_error_translation_witness:
  "raise_resources_unavailable () = Raise (Exn ResourcesUnavailableError ''no A100s'' None)
   \<and> \<not> isinstance example_hierarchy (Exn ResourcesUnavailableError ''no A100s'' None) ToolError
   \<and> handle_skypilot_error example_hierarchy raise_resources_unavailable () =
       Raise (Exn ToolError ''Resources unavailable: no A100s''
                (Some (Exn ResourcesUnavailableError ''no A100s'' None)))"
proof -
  have raised: "raise_resources_unavailable () = Raise (Exn ResourcesUnavailableError ''no A100s'' None)"
    by (simp add: raise_resources_unavailable_def)
  have fresh: "\<not> isinstance example_hierarchy (Exn ResourcesUnavailableError ''no A100s'' None) ToolError"
    by (simp add: isinstance_def)
  show ?thesis
    using raised fresh handle_skypilot_error_translation [where func = raise_resources_unavailable and args = "()", OF raised fresh]
    by (simp add: translation_table_def isinstance_def)
qed

text \<open>
  Claim C1 as stated fails for a failure that is not an \<^verbatim>\<open>Exception\<close>: a
  \<^verbatim>\<open>SystemExit\<close> (what \<^verbatim>\<open>sys.exit(1)\<close> raises) matches no row of the table, and
  the wrapper raises it as it is, not as a \<^verbatim>\<open>ToolError\<close>.
\<close>

theorem handle_skypilot_error_system_exit:
  "first_match example_hierarchy (Exn (OtherClass ''SystemExit'') ''1'' None)
     translation_table = None
   \<and> handle_skypilot_error example_hierarchy raise_system_exit () =
       Raise (Exn (OtherClass ''SystemExit'') ''1'' None)"
  by (simp add: handle_skypilot_error_def raise_system_exit_def translation_table_def
      isinstance_def)

text \<open>
  Claim C2. When the wrapped function raises a failure that is a \<^verbatim>\<open>ToolError\<close>
  already, the wrapper raises that very failure: same class, same message, same cause,
  no prefix added. Wrapping twice is wrapping once.
\<close>

theorem handle_skypilot_error_passes_tool_error:
  "(func args = Raise e \<longrightarrow> isinstance H e ToolError \<longrightarrow>
      handle_skypilot_error H func args = Raise e)
   \<and> handle_skypilot_error H (handle_skypilot_error H func) = handle_skypilot_error H func"
proof
  show "func args = Raise e \<longrightarrow> isinstance H e ToolError \<longrightarrow>
      handle_skypilot_error H func args = Raise e"
    by (simp add: handle_skypilot_error_ToolError)
  show "handle_skypilot_error H (handle_skypilot_error H func) = handle_skypilot_error H func"
    by (rule ext) (rule handle_skypilot_error_twice)
qed

theorem handle_skypilot_error_passes_tool_error_witness:
  "raise_already_handled () = Raise (Exn ToolError ''already handled'' None)
   \<and> isinstance example_hierarchy (Exn ToolError ''already handled'' None) ToolError
   \<and> handle_skypilot_error example_hierarchy raise_already_handled () =
       Raise (Exn ToolError ''already handled'' None)
   \<and> handle_skypilot_error example_hierarchy
        (handle_skypilot_error example_hierarchy raise_resources_unavailable) () =
       Raise (Exn ToolError ''Resources unavailable: no A100s''
                (Some (Exn ResourcesUnavailableError ''no A100s'' None)))"
proof -
  have raised: "raise_already_handled () = Raise (Exn ToolError ''already handled'' None)"
    by (simp add: raise_already_handled_def)
  have inst: "isinstance example_hierarchy (Exn ToolError ''already handled'' None) ToolError"
    by (simp add: isinstance_def)
  have once: "handle_skypilot_error example_hierarchy raise_resources_unavailable () =
       Raise (Exn ToolError ''Resources unavailable: no A100s''
                (Some (Exn ResourcesUnavailableError ''no A100s'' None)))"
    by (simp add: handle_skypilot_error_def raise_resources_unavailable_def isinstance_def
        tool_error_def)
  note once_thm = handle_skypilot_error_passes_tool_error
    [of raise_already_handled "()" "Exn ToolError ''already handled'' None" example_hierarchy]
  note twice = handle_skypilot_error_passes_tool_error
    [of raise_resources_unavailable "()" "Exn ToolError ''already handled'' None" example_hierarchy]
  show ?thesis
    using raised inst once once_thm twice by simp
qed


section \<open>Properties of the parsing entry points\<close>

lemma all_dropWhile_iff:
  "(\<forall>x\<in>set (dropWhile P xs). P x) \<longleftrightarrow> (\<forall>x\<in>set xs. P x)"
proof
  assume all: "\<forall>x\<in>set (dropWhile P xs). P x"
  have "dropWhile P xs = []"
  proof (rule ccontr)
    assume ne: "dropWhile P xs \<noteq> []"
    then have "\<not> P (hd (dropWhile P xs))" by (rule hd_dropWhile)
    moreover have "hd (dropWhile P xs) \<in> set (dropWhile P xs)" using ne by simp
    ultimately show False using all by blast
  qed
  then show "\<forall>x\<in>set xs. P x" by (simp add: dropWhile_eq_Nil_conv)
next
  assume "\<forall>x\<in>set xs. P x"
  then show "\<forall>x\<in>set (dropWhile P xs). P x" by (auto dest: set_dropWhileD)
qed

lemma py_strip_empty_iff: "py_strip s = [] \<longleftrightarrow> (\<forall>c\<in>set s. py_isspace c)"
  by (simp add: py_strip_def dropWhile_eq_Nil_conv all_dropWhile_iff)

lemma blank_iff: "s = [] \<or> py_strip s = [] \<longleftrightarrow> (\<forall>c\<in>set s. py_isspace c)"
  by (auto simp: py_strip_empty_iff)

text \<open>
  Claim C9. For a text that is empty or made of whitespace only,
  \<open>create_task_from_yaml\<close> and \<open>load_dag_from_yaml\<close> raise a \<^verbatim>\<open>ValueError\<close> and make
  no call to the SDK's parser. When either made a call, the text holds a code point that
  is not whitespace, and the call is the one call of the parser on that text, whose
  outcome is the entry point's.
\<close>

theorem yaml_entry_points_reject_blank:
  "((\<forall>c\<in>set s. py_isspace c) \<longrightarrow>
      create_task_from_yaml from_yaml_str (Some s) =
        ([], Raise (Exn ValueError ''task_yaml must be a non-empty YAML string.'' None))
      \<and> load_dag_from_yaml load_chain_dag (Some s) =
        ([], Raise (Exn ValueError ''task_yaml must be a non-empty YAML string.'' None)))
   \<and> (fst (create_task_from_yaml from_yaml_str yaml_str) \<noteq> [] \<longrightarrow>
        (\<exists>t. yaml_str = Some t \<and> (\<exists>c\<in>set t. \<not> py_isspace c)
             \<and> create_task_from_yaml from_yaml_str yaml_str = ([t], from_yaml_str t)))
   \<and> (fst (load_dag_from_yaml load_chain_dag yaml_str) \<noteq> [] \<longrightarrow>
        (\<exists>t. yaml_str = Some t \<and> (\<exists>c\<in>set t. \<not> py_isspace c)
             \<and> load_dag_from_yaml load_chain_dag yaml_str = ([t], load_chain_dag t)))"
proof (intro conjI impI)
  assume blank: "\<forall>c\<in>set s. py_isspace c"
  then have "s = [] \<or> py_strip s = []" by (simp only: blank_iff)
  then show "create_task_from_yaml from_yaml_str (Some s) =
        ([], Raise (Exn ValueError ''task_yaml must be a non-empty YAML string.'' None))"
    and "load_dag_from_yaml load_chain_dag (Some s) =
        ([], Raise (Exn ValueError ''task_yaml must be a non-empty YAML string.'' None))"
    by (auto simp: create_task_from_yaml_def load_dag_from_yaml_def)
next
  assume called: "fst (create_task_from_yaml from_yaml_str yaml_str) \<noteq> []"
  then obtain t where t: "yaml_str = Some t" and nb: "\<not> (t = [] \<or> py_strip t = [])"
    by (cases yaml_str) (auto simp: create_task_from_yaml_def split: if_splits)
  from nb have "\<exists>c\<in>set t. \<not> py_isspace c" by (simp only: blank_iff) simp
  moreover have "create_task_from_yaml from_yaml_str yaml_str = ([t], from_yaml_str t)"
    using nb t by (simp add: create_task_from_yaml_def)
  ultimately show "\<exists>t. yaml_str = Some t \<and> (\<exists>c\<in>set t. \<not> py_isspace c)
             \<and> create_task_from_yaml from_yaml_str yaml_str = ([t], from_yaml_str t)"
    using t by blast
next
  assume called: "fst (load_dag_from_yaml load_chain_dag yaml_str) \<noteq> []"
  then obtain t where t: "yaml_str = Some t" and nb: "\<not> (t = [] \<or> py_strip t = [])"
    by (cases yaml_str) (auto simp: load_dag_from_yaml_def split: if_splits)
  from nb have "\<exists>c\<in>set t. \<not> py_isspace c" by (simp only: blank_iff) simp
  moreover have "load_dag_from_yaml load_chain_dag yaml_str = ([t], load_chain_dag t)"
    using nb t by (simp add: load_dag_from_yaml_def)
  ultimately show "\<exists>t. yaml_str = Some t \<and> (\<exists>c\<in>set t. \<not> py_isspace c)
             \<and> load_dag_from_yaml load_chain_dag yaml_str = ([t], load_chain_dag t)"
    using t by blast
qed

theorem yaml_entry_points_reject_blank_witness:
  "list_all py_isspace [32, 32, 32, 10, 32, 32]
   \<and> create_task_from_yaml example_parser (Some [32, 32, 32, 10, 32, 32]) =
        ([], Raise (Exn ValueError ''task_yaml must be a non-empty YAML string.'' None))
   \<and> load_dag_from_yaml example_parser (Some [32, 32, 32, 10, 32, 32]) =
        ([], Raise (Exn ValueError ''task_yaml must be a non-empty YAML string.'' None))
   \<and> fst (create_task_from_yaml example_parser (Some [110, 97, 109, 101, 58, 32, 116])) \<noteq> []
   \<and> create_task_from_yaml example_parser (Some [110, 97, 109, 101, 58, 32, 116]) =
        ([[110, 97, 109, 101, 58, 32, 116]], Return [110, 97, 109, 101, 58, 32, 116])"
proof -
  have blank: "\<forall>c\<in>set [32, 32, 32, 10, 32, 32]. py_isspace c"
    by (simp add: py_isspace_def)
  have called: "fst (create_task_from_yaml example_parser (Some [110, 97, 109, 101, 58, 32, 116])) \<noteq> []"
    by (simp add: create_task_from_yaml_def py_strip_def py_isspace_def)
  note a = yaml_entry_points_reject_blank
    [where s = "[32, 32, 32, 10, 32, 32]" and from_yaml_str = example_parser
       and load_chain_dag = example_parser
       and yaml_str = "Some [110, 97, 109, 101, 58, 32, 116]"]
  show ?thesis
    using blank called a by (simp add: example_parser_def)
qed


section \<open>Properties of log capture\<close>

lemma contains_prefix: "contains sub (sub @ post)"
proof (cases "sub @ post")
  case Nil
  then show ?thesis by simp
next
  case (Cons c cs)
  have "take (length sub) (sub @ post) = sub" by simp
  then have "take (length sub) (c # cs) = sub" by (simp only: Cons)
  then show ?thesis by (simp only: Cons contains.simps simp_thms)
qed

lemma contains_append: "contains sub s \<Longrightarrow> contains sub (pre @ s)"
  by (induction pre) auto

lemma contains_mid: "s = pre @ sub @ post \<Longrightarrow> contains sub s"
  by (simp add: contains_append contains_prefix)

text \<open>
  Claim C5, as amended. \<open>capture_managed_job_logs\<close>, \<open>capture_serve_logs\<close> and
  \<open>capture_pool_logs\<close> call the SDK with \<^verbatim>\<open>tail=None\<close> when their \<^verbatim>\<open>tail\<close> is 0 and
  with their \<^verbatim>\<open>tail\<close> unchanged otherwise. \<open>capture_cluster_logs\<close> passes its
  \<^verbatim>\<open>tail\<close> on unchanged, zero as well.
\<close>

theorem capture_tail_argument:
  "tl_tail (fst (capture_cluster_logs sky_tail_logs cluster_name job_id tail)) = Some tail
   \<and> jt_tail (fst (capture_managed_job_logs jobs_tail_logs name job_id controller refresh task tail))
       = (if tail = 0 then None else Some tail)
   \<and> st_tail (fst (capture_serve_logs serve_tail_logs service_name target replica_id tail))
       = (if tail = 0 then None else Some tail)
   \<and> pt_tail (fst (capture_pool_logs pool_tail_logs pool_name target worker_id tail))
       = (if tail = 0 then None else Some tail)"
  by (simp add: capture_cluster_logs_def capture_managed_job_logs_def capture_serve_logs_def
      capture_pool_logs_def Let_def)

text \<open>
  Claim C5 as stated fails for \<open>capture_cluster_logs\<close>: with \<^verbatim>\<open>tail=0\<close> it calls
  \<^verbatim>\<open>sky.tail_logs\<close> with \<^verbatim>\<open>tail=0\<close>, not with \<^verbatim>\<open>None\<close>.
\<close>

theorem capture_cluster_logs_tail_zero:
  "tl_tail (fst (capture_cluster_logs sdk_writes ''c1'' None 0)) = Some 0"
  by (simp add: capture_cluster_logs_def Let_def)

text \<open>
  Claim C6, as amended. When the SDK call returns exit code \<open>exit_code\<close> and has written
  \<open>buf\<close>: for a non-zero exit code \<open>capture_cluster_logs\<close> and
  \<open>capture_managed_job_logs\<close> raise a \<^verbatim>\<open>RuntimeError\<close> whose message is made of the
  target (the \<^verbatim>\<open>repr\<close> of the cluster name and the job id; the job's name, or else its
  id) and the exit code alone, with nothing of the captured output, and
  \<open>skypilot_tail_autostop_logs\<close> raises one whose message is made of the \<^verbatim>\<open>repr\<close> of
  the cluster name and the exit code, followed by the captured output when there is
  any; each message holds the target and the exit code. For exit code zero these three
  return \<open>buf\<close>. \<open>capture_serve_logs\<close> and \<open>capture_pool_logs\<close> drop what the SDK call
  returns and return \<open>buf\<close> in every case.
\<close>

theorem capture_exit_code:
  "(sky_tail_logs (fst (capture_cluster_logs sky_tail_logs cluster_name job_id tail))
       = Return (exit_code, buf) \<longrightarrow>
      (if exit_code \<noteq> 0
       then snd (capture_cluster_logs sky_tail_logs cluster_name job_id tail)
              = Raise (Exn RuntimeError
                  (''Failed to retrieve logs for cluster '' @ py_repr cluster_name
                   @ '' (job_id='' @ str_opt_int job_id
                   @ ''): tail_logs returned exit code '' @ str_int exit_code @ ''.'') None)
            \<and> contains (py_repr cluster_name)
                  (''Failed to retrieve logs for cluster '' @ py_repr cluster_name
                   @ '' (job_id='' @ str_opt_int job_id
                   @ ''): tail_logs returned exit code '' @ str_int exit_code @ ''.'')
            \<and> contains (str_int exit_code)
                  (''Failed to retrieve logs for cluster '' @ py_repr cluster_name
                   @ '' (job_id='' @ str_opt_int job_id
                   @ ''): tail_logs returned exit code '' @ str_int exit_code @ ''.'')
       else snd (capture_cluster_logs sky_tail_logs cluster_name job_id tail) = Return buf))
   \<and> (jobs_tail_logs (fst (capture_managed_job_logs jobs_tail_logs name job_id controller refresh task tail))
       = Return (exit_code, buf) \<longrightarrow>
      (if exit_code \<noteq> 0
       then snd (capture_managed_job_logs jobs_tail_logs name job_id controller refresh task tail)
              = Raise (Exn RuntimeError
                  (''Failed to retrieve managed job logs ('' @ identifier_text name job_id
                   @ ''): tail_logs returned exit code '' @ str_int exit_code @ ''.'') None)
            \<and> contains (identifier_text name job_id)
                  (''Failed to retrieve managed job logs ('' @ identifier_text name job_id
                   @ ''): tail_logs returned exit code '' @ str_int exit_code @ ''.'')
            \<and> contains (str_int exit_code)
                  (''Failed to retrieve managed job logs ('' @ identifier_text name job_id
                   @ ''): tail_logs returned exit code '' @ str_int exit_code @ ''.'')
       else snd (capture_managed_job_logs jobs_tail_logs name job_id controller refresh task tail)
              = Return buf))
   \<and> (tail_autostop_logs (fst (skypilot_tail_autostop_logs tail_autostop_logs cluster_name tail))
       = Return (exit_code, buf) \<longrightarrow>
      (if exit_code \<noteq> 0
       then snd (skypilot_tail_autostop_logs tail_autostop_logs cluster_name tail)
              = Raise (Exn RuntimeError
                  (''Failed to retrieve autostop logs for cluster '' @ py_repr cluster_name
                   @ '': exit code '' @ str_int exit_code @ ''.''
                   @ (if buf \<noteq> [] then [CHR 0x0A] @ ''Output: '' @ buf else [])) None)
            \<and> contains (py_repr cluster_name)
                  (''Failed to retrieve autostop logs for cluster '' @ py_repr cluster_name
                   @ '': exit code '' @ str_int exit_code @ ''.''
                   @ (if buf \<noteq> [] then [CHR 0x0A] @ ''Output: '' @ buf else []))
            \<and> contains (str_int exit_code)
                  (''Failed to retrieve autostop logs for cluster '' @ py_repr cluster_name
                   @ '': exit code '' @ str_int exit_code @ ''.''
                   @ (if buf \<noteq> [] then [CHR 0x0A] @ ''Output: '' @ buf else []))
            \<and> contains buf
                  (''Failed to retrieve autostop logs for cluster '' @ py_repr cluster_name
                   @ '': exit code '' @ str_int exit_code @ ''.''
                   @ (if buf \<noteq> [] then [CHR 0x0A] @ ''Output: '' @ buf else []))
       else snd (skypilot_tail_autostop_logs tail_autostop_logs cluster_name tail) = Return buf))
   \<and> (serve_tail_logs (fst (capture_serve_logs serve_tail_logs service_name target replica_id tail))
       = Return (returned, buf) \<longrightarrow>
      snd (capture_serve_logs serve_tail_logs service_name target replica_id tail) = Return buf)
   \<and> (pool_tail_logs (fst (capture_pool_logs pool_tail_logs pool_name target worker_id tail))
       = Return (returned', buf) \<longrightarrow>
      snd (capture_pool_logs pool_tail_logs pool_name target worker_id tail) = Return buf)"
proof (intro conjI impI)
  let ?m = "''Failed to retrieve logs for cluster '' @ py_repr cluster_name
                @ '' (job_id='' @ str_opt_int job_id
                @ ''): tail_logs returned exit code '' @ str_int exit_code @ ''.''"
  assume "sky_tail_logs (fst (capture_cluster_logs sky_tail_logs cluster_name job_id tail))
       = Return (exit_code, buf)"
  then have r: "snd (capture_cluster_logs sky_tail_logs cluster_name job_id tail) =
       (if exit_code \<noteq> 0 then Raise (Exn RuntimeError ?m None) else Return buf)"
    by (simp add: capture_cluster_logs_def Let_def)
  have c1: "contains (py_repr cluster_name) ?m"
    by (rule contains_mid [where pre = "''Failed to retrieve logs for cluster ''"
          and post = "'' (job_id='' @ str_opt_int job_id
                @ ''): tail_logs returned exit code '' @ str_int exit_code @ ''.''"]) simp
  have c2: "contains (str_int exit_code) ?m"
    by (rule contains_mid [where pre = "''Failed to retrieve logs for cluster '' @ py_repr cluster_name
                @ '' (job_id='' @ str_opt_int job_id
                @ ''): tail_logs returned exit code ''"
          and post = "''.''"]) simp
  show "if exit_code \<noteq> 0
       then snd (capture_cluster_logs sky_tail_logs cluster_name job_id tail)
              = Raise (Exn RuntimeError ?m None)
            \<and> contains (py_repr cluster_name) ?m
            \<and> contains (str_int exit_code) ?m
       else snd (capture_cluster_logs sky_tail_logs cluster_name job_id tail) = Return buf"
    using r c1 c2 by (simp only: split: if_split) simp
next
  let ?m = "''Failed to retrieve managed job logs ('' @ identifier_text name job_id
                @ ''): tail_logs returned exit code '' @ str_int exit_code @ ''.''"
  assume "jobs_tail_logs (fst (capture_managed_job_logs jobs_tail_logs name job_id controller refresh task tail))
       = Return (exit_code, buf)"
  then have r: "snd (capture_managed_job_logs jobs_tail_logs name job_id controller refresh task tail) =
       (if exit_code \<noteq> 0 then Raise (Exn RuntimeError ?m None) else Return buf)"
    by (simp add: capture_managed_job_logs_def Let_def)
  have c1: "contains (identifier_text name job_id) ?m"
    by (rule contains_mid [where pre = "''Failed to retrieve managed job logs (''"
          and post = "''): tail_logs returned exit code '' @ str_int exit_code @ ''.''"]) simp
  have c2: "contains (str_int exit_code) ?m"
    by (rule contains_mid [where pre = "''Failed to retrieve managed job logs ('' @ identifier_text name job_id
                @ ''): tail_logs returned exit code ''"
          and post = "''.''"]) simp
  show "if exit_code \<noteq> 0
       then snd (capture_managed_job_logs jobs_tail_logs name job_id controller refresh task tail)
              = Raise (Exn RuntimeError ?m None)
            \<and> contains (identifier_text name job_id) ?m
            \<and> contains (str_int exit_code) ?m
       else snd (capture_managed_job_logs jobs_tail_logs name job_id controller refresh task tail)
              = Return buf"
    using r c1 c2 by (simp only: split: if_split) simp
next
  let ?m = "''Failed to retrieve autostop logs for cluster '' @ py_repr cluster_name
                @ '': exit code '' @ str_int exit_code @ ''.''
                @ (if buf \<noteq> [] then [CHR 0x0A] @ ''Output: '' @ buf else [])"
  assume "tail_autostop_logs (fst (skypilot_tail_autostop_logs tail_autostop_logs cluster_name tail))
       = Return (exit_code, buf)"
  then have r: "snd (skypilot_tail_autostop_logs tail_autostop_logs cluster_name tail) =
       (if exit_code \<noteq> 0 then Raise (Exn RuntimeError ?m None) else Return buf)"
    by (simp add: skypilot_tail_autostop_logs_def Let_def)
  have c1: "contains (py_repr cluster_name) ?m"
    by (rule contains_mid [where pre = "''Failed to retrieve autostop logs for cluster ''"
          and post = "'': exit code '' @ str_int exit_code @ ''.''
                @ (if buf \<noteq> [] then [CHR 0x0A] @ ''Output: '' @ buf else [])"]) simp
  have c2: "contains (str_int exit_code) ?m"
    by (rule contains_mid [where pre = "''Failed to retrieve autostop logs for cluster '' @ py_repr cluster_name
                @ '': exit code ''"
          and post = "''.'' @ (if buf \<noteq> [] then [CHR 0x0A] @ ''Output: '' @ buf else [])"]) simp
  have c3: "contains buf ?m"
  proof (cases "buf = []")
    case True
    then show ?thesis by (simp add: contains_mid [where pre = "[]" and sub = "[]"])
  next
    case False
    then show ?thesis
      by (intro contains_mid [where pre = "''Failed to retrieve autostop logs for cluster '' @ py_repr cluster_name
                @ '': exit code '' @ str_int exit_code @ ''.'' @ [CHR 0x0A] @ ''Output: ''"
          and post = "[]"]) simp
  qed
  show "if exit_code \<noteq> 0
       then snd (skypilot_tail_autostop_logs tail_autostop_logs cluster_name tail)
              = Raise (Exn RuntimeError ?m None)
            \<and> contains (py_repr cluster_name) ?m
            \<and> contains (str_int exit_code) ?m
            \<and> contains buf ?m
       else snd (skypilot_tail_autostop_logs tail_autostop_logs cluster_name tail) = Return buf"
    using r c1 c2 c3 by (simp only: split: if_split) simp
next
  assume "serve_tail_logs (fst (capture_serve_logs serve_tail_logs service_name target replica_id tail))
       = Return (returned, buf)"
  then show "snd (capture_serve_logs serve_tail_logs service_name target replica_id tail) = Return buf"
    by (simp add: capture_serve_logs_def Let_def)
next
  assume "pool_tail_logs (fst (capture_pool_logs pool_tail_logs pool_name target worker_id tail))
       = Return (returned', buf)"
  then show "snd (capture_pool_logs pool_tail_logs pool_name target worker_id tail) = Return buf"
    by (simp add: capture_pool_logs_def Let_def)
qed

theorem capture_exit_code_witness:
  "sdk_fails (fst (capture_cluster_logs sdk_fails ''c1'' None 100)) = Return (1, ''boom'')
   \<and> snd (capture_cluster_logs sdk_fails ''c1'' None 100)
       = Raise (Exn RuntimeError
           (''Failed to retrieve logs for cluster '' @ py_repr ''c1''
            @ '' (job_id='' @ str_opt_int None
            @ ''): tail_logs returned exit code '' @ str_int 1 @ ''.'') None)
   \<and> snd (capture_managed_job_logs sdk_fails (Some ''my-job'') None False False None 100)
       = Raise (Exn RuntimeError
           (''Failed to retrieve managed job logs ('' @ identifier_text (Some ''my-job'') None
            @ ''): tail_logs returned exit code '' @ str_int 1 @ ''.'') None)
   \<and> snd (skypilot_tail_autostop_logs sdk_fails ''c1'' 100)
       = Raise (Exn RuntimeError
           (''Failed to retrieve autostop logs for cluster '' @ py_repr ''c1''
            @ '': exit code '' @ str_int 1 @ ''.'' @ [CHR 0x0A] @ ''Output: boom'') None)
   \<and> snd (capture_serve_logs sdk_fails ''svc'' ''controller'' None 100) = Return ''boom''
   \<and> snd (capture_pool_logs sdk_fails ''pool'' ''controller'' None 100) = Return ''boom''
   \<and> snd (capture_cluster_logs sdk_writes ''c1'' None 100) = Return ''log line''
   \<and> snd (capture_managed_job_logs sdk_writes (Some ''my-job'') None False False None 100)
       = Return ''log line''
   \<and> snd (skypilot_tail_autostop_logs sdk_writes ''c1'' 100) = Return ''log line''"
proof -
  note fails = capture_exit_code
    [where sky_tail_logs = sdk_fails and cluster_name = "''c1''" and job_id = None
       and tail = 100 and exit_code = 1 and buf = "''boom''"
       and jobs_tail_logs = sdk_fails and name = "Some ''my-job''" and controller = False
       and refresh = False and task = None
       and tail_autostop_logs = sdk_fails
       and serve_tail_logs = sdk_fails and service_name = "''svc''" and target = "''controller''"
       and replica_id = None and returned = 1
       and pool_tail_logs = sdk_fails and pool_name = "''pool''" and worker_id = None
       and returned' = 1]
  note writes = capture_exit_code
    [where sky_tail_logs = sdk_writes and cluster_name = "''c1''" and job_id = None
       and tail = 100 and exit_code = 0 and buf = "''log line''"
       and jobs_tail_logs = sdk_writes and name = "Some ''my-job''" and controller = False
       and refresh = False and task = None
       and tail_autostop_logs = sdk_writes
       and serve_tail_logs = sdk_writes and service_name = "''svc''" and target = "''controller''"
       and replica_id = None and returned = 0
       and pool_tail_logs = sdk_writes and pool_name = "''pool''" and worker_id = None
       and returned' = 0]
  have called: "sdk_fails (fst (capture_cluster_logs sdk_fails ''c1'' None 100))
      = Return (1, ''boom'')"
    by (simp add: sdk_fails_def)
  from fails have failing:
    "snd (capture_cluster_logs sdk_fails ''c1'' None 100)
       = Raise (Exn RuntimeError
           (''Failed to retrieve logs for cluster '' @ py_repr ''c1''
            @ '' (job_id='' @ str_opt_int None
            @ ''): tail_logs returned exit code '' @ str_int 1 @ ''.'') None)"
    "snd (capture_managed_job_logs sdk_fails (Some ''my-job'') None False False None 100)
       = Raise (Exn RuntimeError
           (''Failed to retrieve managed job logs ('' @ identifier_text (Some ''my-job'') None
            @ ''): tail_logs returned exit code '' @ str_int 1 @ ''.'') None)"
    "snd (skypilot_tail_autostop_logs sdk_fails ''c1'' 100)
       = Raise (Exn RuntimeError
           (''Failed to retrieve autostop logs for cluster '' @ py_repr ''c1''
            @ '': exit code '' @ str_int 1 @ ''.'' @ [CHR 0x0A] @ ''Output: boom'') None)"
    "snd (capture_serve_logs sdk_fails ''svc'' ''controller'' None 100) = Return ''boom''"
    "snd (capture_pool_logs sdk_fails ''pool'' ''controller'' None 100) = Return ''boom''"
    by (simp_all add: sdk_fails_def)
  from writes have writing:
    "snd (capture_cluster_logs sdk_writes ''c1'' None 100) = Return ''log line''"
    "snd (capture_managed_job_logs sdk_writes (Some ''my-job'') None False False None 100)
       = Return ''log line''"
    "snd (skypilot_tail_autostop_logs sdk_writes ''c1'' 100) = Return ''log line''"
    by (simp_all add: sdk_writes_def)
  from called failing writing show ?thesis by (intro conjI)
qed

text \<open>
  Claim C6 as stated fails for \<open>capture_cluster_logs\<close>: the SDK call wrote \<open>''boom''\<close> and
  returned exit code 1; the message of the \<^verbatim>\<open>RuntimeError\<close> names the cluster and the
  exit code and holds nothing of the captured output.
\<close>

theorem capture_cluster_logs_omits_output:
  "sdk_fails (fst (capture_cluster_logs sdk_fails ''c1'' None 100)) = Return (1, ''boom'')
   \<and> snd (capture_cluster_logs sdk_fails ''c1'' None 100) =
       Raise (Exn RuntimeError
         (''Failed to retrieve logs for cluster '' @ [CHR 0x27] @ ''c1'' @ [CHR 0x27]
          @ '' (job_id=None): tail_logs returned exit code 1.'') None)
   \<and> \<not> contains ''boom''
         (''Failed to retrieve logs for cluster '' @ [CHR 0x27] @ ''c1'' @ [CHR 0x27]
          @ '' (job_id=None): tail_logs returned exit code 1.'')"
  by (simp add: capture_cluster_logs_def sdk_fails_def py_repr_def repr_char_def str_opt_int_def
      str_int_def str_nat.simps Let_def)

section \<open>Properties of the request resolver\<close>

lemma resolve_request_in_time:
  "int d \<le> timeout \<Longrightarrow>
   resolve_request futures_timeout H request_id timeout (Finishes d (Return v)) = Some (d, Return v)"
  by (simp add: resolve_request_def future_result_def executor_exit_def)

lemma resolve_request_late:
  "timeout < int d \<Longrightarrow>
   resolve_request futures_timeout H request_id timeout (Finishes d r) =
     Some (d, Raise (Exn TimeoutError (timeout_message request_id timeout) None))"
  by (simp add: resolve_request_def future_result_def executor_exit_def isinstance_def)

lemma resolve_request_blocks:
  "resolve_request futures_timeout H request_id timeout Blocks = None"
  by (simp add: resolve_request_def future_result_def executor_exit_def)

lemma resolve_request_propagates:
  "int d \<le> timeout \<Longrightarrow> \<not> isinstance H e futures_timeout \<Longrightarrow>
   resolve_request futures_timeout H request_id timeout (Finishes d (Raise e)) = Some (d, Raise e)"
  by (simp add: resolve_request_def future_result_def executor_exit_def)

lemma default_timeout_below_tool_timeout:
  "DEFAULT_RESOLVE_TIMEOUT = 580 \<and> DEFAULT_RESOLVE_TIMEOUT < MCP_TOOL_TIMEOUT"
  by (simp add: DEFAULT_RESOLVE_TIMEOUT_def MCP_TOOL_TIMEOUT_def)

text \<open>
  Where the fetch is over within the timeout, \<open>resolve_request\<close> returns what the fetch
  returned, as it is, and raises what the fetch raised, as it is (a failure of the class
  \<^verbatim>\<open>concurrent.futures.TimeoutError\<close> apart). The default timeout is 580 seconds, below
  the 600 seconds of an MCP tool call.
\<close>

theorem resolve_request_passes_result:
  "(int d \<le> timeout \<longrightarrow>
      resolve_request futures_timeout H request_id timeout (Finishes d (Return v))
        = Some (d, Return v))
   \<and> (int d \<le> timeout \<and> \<not> isinstance H e futures_timeout \<longrightarrow>
        resolve_request futures_timeout H request_id timeout (Finishes d (Raise e))
          = Some (d, Raise e))
   \<and> DEFAULT_RESOLVE_TIMEOUT = 580 \<and> DEFAULT_RESOLVE_TIMEOUT < MCP_TOOL_TIMEOUT"
  by (simp add: resolve_request_in_time resolve_request_propagates
      DEFAULT_RESOLVE_TIMEOUT_def MCP_TOOL_TIMEOUT_def)

theorem resolve_request_passes_result_witness:
  "resolve_request TimeoutError example_hierarchy ''req-ok-001'' 5
     (Finishes 0 (Return (PList [PDict [(KStr [110, 97, 109, 101], PStr [99, 49])]])))
     = Some (0, Return (PList [PDict [(KStr [110, 97, 109, 101], PStr [99, 49])]]))
   \<and> resolve_request TimeoutError example_hierarchy ''req-err-001'' DEFAULT_RESOLVE_TIMEOUT
       (Finishes 0 (Raise (Exn RuntimeError ''connection lost'' None)) :: unit fetch)
     = Some (0, Raise (Exn RuntimeError ''connection lost'' None))"
proof -
  have in_time: "int 0 \<le> 5" "int 0 \<le> DEFAULT_RESOLVE_TIMEOUT"
    by (simp_all add: DEFAULT_RESOLVE_TIMEOUT_def)
  have other: "\<not> isinstance example_hierarchy (Exn RuntimeError ''connection lost'' None) TimeoutError"
    by (simp add: isinstance_def)
  note returned = resolve_request_passes_result
    [where d = 0 and timeout = 5 and futures_timeout = TimeoutError and H = example_hierarchy
       and request_id = "''req-ok-001''"
       and e = "Exn RuntimeError ''connection lost'' None"
       and v = "PList [PDict [(KStr [110, 97, 109, 101], PStr [99, 49])]]"]
  note raised = resolve_request_passes_result
    [where d = 0 and timeout = DEFAULT_RESOLVE_TIMEOUT and futures_timeout = TimeoutError
       and H = example_hierarchy and request_id = "''req-err-001''"
       and e = "Exn RuntimeError ''connection lost'' None" and v = "()"]
  show ?thesis using in_time other returned raised by blast
qed

text \<open>
  Claim C4 does not hold of the code where the fetch outlasts the timeout. The
  \<^verbatim>\<open>TimeoutError\<close> is raised inside the \<^verbatim>\<open>with\<close> block, and leaving the block
  joins the worker: for a fetch that never completes \<open>resolve_request\<close> never returns;
  for one that takes 700 seconds the \<^verbatim>\<open>TimeoutError\<close> of a 1-second timeout reaches the
  caller after 700 seconds, and so does that of the default timeout, later than the 600
  seconds of the MCP tool call.
\<close>

theorem resolve_request_waits_for_the_fetch:
  "resolve_request TimeoutError example_hierarchy ''req-slow-001'' 1 (Blocks :: unit fetch) = None
   \<and> resolve_request TimeoutError example_hierarchy ''req-slow-001'' 1 (Finishes 700 (Return ())) =
       Some (700, Raise (Exn TimeoutError
         (''Request req-slow-001 did not complete within 1s. ''
          @ ''The request may still be running on the server. ''
          @ ''Use skypilot_api_status to check its status.'') None))
   \<and> resolve_request TimeoutError example_hierarchy ''req-slow-001'' DEFAULT_RESOLVE_TIMEOUT
       (Finishes 700 (Return ())) =
       Some (700, Raise (Exn TimeoutError
         (''Request req-slow-001 did not complete within 580s. ''
          @ ''The request may still be running on the server. ''
          @ ''Use skypilot_api_status to check its status.'') None))
   \<and> MCP_TOOL_TIMEOUT < 700"
  by (simp add: resolve_request_def future_result_def executor_exit_def isinstance_def
      timeout_message_def str_int_def str_nat.simps DEFAULT_RESOLVE_TIMEOUT_def
      MCP_TOOL_TIMEOUT_def)

section \<open>Properties of the serializer\<close>

subsection \<open>Base64\<close>















lemma b64_alphabet:
  "map b64_char [0..<64] = ''ABCDEFGHIJKLMNOPQRSTUVWXYZabcdefghijklmnopqrstuvwxyz0123456789+/''"
  by code_simp

subsection \<open>Sorting\<close>






lemma sorted_when_orderable:
  assumes "sorts_orderable lt srt" and "mutually_orderable lt xs"
  shows "\<exists>ys. run_sorted srt xs = Some ys \<and> mset ys = mset xs
              \<and> sorted_wrt (\<lambda>a b. lt b a = Some False) ys"
proof -
  from assms obtain ys where ys: "run_sorted srt xs = Some ys"
    and sorted: "sorted_wrt (\<lambda>a b. lt b a = Some False) ys"
    unfolding sorts_orderable_def by blast
  from run_sorted_mset [OF ys] ys sorted show ?thesis by blast
qed

lemma two_element_rearrangement:
  assumes "mset ys = mset [a, b]"
  shows "ys = [a, b] \<or> ys = [b, a]"
proof -
  from assms have "length ys = 2" using mset_eq_length [OF assms] by simp
  then obtain p q where ys: "ys = [p, q]"
    by (cases ys; cases "tl ys") auto
  with assms show ?thesis by (auto simp: add_eq_conv_ex)
qed

text \<open>
  Every \<^verbatim>\<open>sorted\<close> that sorts mutually orderable elements under the comparison of the
  examples gives, for the set of the byte strings \<^verbatim>\<open>b"\xff"\<close> and \<^verbatim>\<open>b"b"\<close>, the
  same result as the sorter of the examples.
\<close>

lemma bytes_set_every_sorter:
  assumes "sorts_orderable example_lt srt"
  shows "make_serializable srt (PSet [PBytes [0xFF], PBytes [0x62]])
       = PList [PStr [98], PStr [47, 119, 61, 61]]"
proof -
  have orderable: "mutually_orderable example_lt [PBytes [0xFF], PBytes [0x62]]"
    by (simp add: mutually_orderable_def del: not_None_eq)
  from sorted_when_orderable [OF assms orderable] obtain ys
    where ys: "run_sorted srt [PBytes [0xFF], PBytes [0x62]] = Some ys"
      and perm: "mset ys = mset [PBytes [0xFF], PBytes [0x62]]"
      and sorted: "sorted_wrt (\<lambda>a b. example_lt b a = Some False) ys" by blast
  from two_element_rearrangement [OF perm] sorted
  have "ys = [PBytes [0x62], PBytes [0xFF]]" by auto
  moreover have "utf8_decode [0x62] = Some [98]" "utf8_decode [0xFF] = None"
    by (simp_all add: utf8_decode_def)
  moreover have "map of_char (b64encode [0xFF]) = [47, 119, 61, 61 :: nat]"
    by code_simp
  ultimately show ?thesis using ys by simp
qed




subsection \<open>Bytes and enum members\<close>



text \<open>
  Claim C3 does not hold of the code for an enum member: the rule for enums returns
  \<^verbatim>\<open>obj.value\<close> as it is, without serializing it. For a member whose value is the
  byte string \<^verbatim>\<open>b"\xff\xfe"\<close> the result is that byte string, which is not a
  canonical value.
\<close>

theorem make_serializable_enum_not_canonical:
  "make_serializable example_sorted (PEnum (PBytes [0xFF, 0xFE])) = PBytes [0xFF, 0xFE]
   \<and> \<not> canonical (make_serializable example_sorted (PEnum (PBytes [0xFF, 0xFE])))"
  by simp

text \<open>
  Claim C10 does not hold of the code for the same enum member: serializing it gives the
  byte string, and serializing that gives the text \<^verbatim>\<open>"//4="\<close>.
\<close>

theorem make_serializable_enum_not_idempotent:
  "make_serializable example_sorted (PEnum (PBytes [0xFF, 0xFE])) = PBytes [0xFF, 0xFE]
   \<and> make_serializable example_sorted (make_serializable example_sorted (PEnum (PBytes [0xFF, 0xFE])))
       = PStr (map of_char ''//4='')
   \<and> make_serializable example_sorted (make_serializable example_sorted (PEnum (PBytes [0xFF, 0xFE])))
       \<noteq> make_serializable example_sorted (PEnum (PBytes [0xFF, 0xFE]))"
proof -
  have invalid: "utf8_decode [0xFF, 0xFE] = None"
    by (simp add: utf8_decode_def)
  have encoded: "b64encode [0xFF, 0xFE] = ''//4=''"
    by code_simp
  show ?thesis using invalid encoded by simp
qed


subsection \<open>Canonical values\<close>

lemma dict_setitem_all:
  "list_all P d \<Longrightarrow> P (k, v) \<Longrightarrow> list_all P (dict_setitem d k v)"
  by (induction d) auto

lemma foldl_dict_setitem_all:
  "list_all P acc \<Longrightarrow> list_all P items \<Longrightarrow>
   list_all P (foldl (\<lambda>d (k, v). dict_setitem d k v) acc items)"
  by (induction items arbitrary: acc) (auto simp: dict_setitem_all)

lemma dict_of_items_all: "list_all P items \<Longrightarrow> list_all P (dict_of_items items)"
  by (simp add: dict_of_items_def foldl_dict_setitem_all)

lemma dict_setitem_fresh: "k \<notin> fst ` set d \<Longrightarrow> dict_setitem d k v = d @ [(k, v)]"
  by (induction d) auto

lemma foldl_dict_setitem_distinct:
  "distinct (map fst (acc @ items)) \<Longrightarrow>
   foldl (\<lambda>d (k, v). dict_setitem d k v) acc items = acc @ items"
proof (induction items arbitrary: acc)
  case Nil
  then show ?case by simp
next
  case (Cons kv items)
  obtain k v where kv: "kv = (k, v)" by (cases kv)
  from Cons.prems kv have fresh: "k \<notin> fst ` set acc" by auto
  from Cons.prems kv have "distinct (map fst ((acc @ [(k, v)]) @ items))" by simp
  from Cons.IH [OF this] show ?case by (simp add: kv dict_setitem_fresh [OF fresh])
qed

lemma dict_of_items_distinct: "distinct (map fst items) \<Longrightarrow> dict_of_items items = items"
  using foldl_dict_setitem_distinct [of "[]" items] by (simp add: dict_of_items_def)

lemma make_serializable_canonical:
  "enum_values_canonical v \<Longrightarrow> canonical (make_serializable srt v)"
proof (induction srt v rule: make_serializable.induct)
  case (8 srt field_values)
  then have "list_all (\<lambda>(k, v). is_str_key k \<and> canonical v)
               (map (\<lambda>(name, v). (KStr name, make_serializable srt v)) field_values)"
    by (auto simp: list_all_iff)
  then show ?case by (simp add: dict_of_items_all)
next
  case (10 srt items)
  show ?case
  proof (cases "run_sorted srt items")
    case None
    with 10 show ?thesis by (auto simp: list_all_iff)
  next
    case (Some sorted_items)
    from run_sorted_set [OF Some] have "set sorted_items = set items" .
    with 10 Some show ?thesis by (auto simp: list_all_iff)
  qed
next
  case (11 srt d)
  then have "list_all (\<lambda>(k, v). is_str_key k \<and> canonical v)
               (map (\<lambda>(k, v). (KStr (key_str k), make_serializable srt v)) d)"
    by (auto simp: list_all_iff)
  then show ?case by (simp add: dict_of_items_all)
next
  case (12 srt xs)
  then show ?case by (auto simp: list_all_iff)
next
  case (13 srt xs)
  then show ?case by (auto simp: list_all_iff)
next
  case (14 srt bs)
  then show ?case by (simp split: option.splits)
qed simp_all

lemma is_str_key_KStr: "is_str_key k \<Longrightarrow> KStr (key_str k) = k"
  by (cases k) simp_all

lemma make_serializable_fixed_point:
  "canonical v \<Longrightarrow> keys_distinct v \<Longrightarrow> make_serializable srt v = v"
proof (induction srt v rule: make_serializable.induct)
  case (11 srt d)
  have "map (\<lambda>(k, v). (KStr (key_str k), make_serializable srt v)) d = d"
  proof (rule map_idI)
    fix kv assume mem: "kv \<in> set d"
    obtain k v where kv: "kv = (k, v)" by (cases kv)
    from 11(2,3) mem kv have "is_str_key k" "canonical v" "keys_distinct v"
      by (auto simp: list_all_iff)
    with 11(1) mem kv show "(case kv of (k, v) \<Rightarrow> (KStr (key_str k), make_serializable srt v)) = kv"
      by (simp add: is_str_key_KStr)
  qed
  moreover from 11(3) have "distinct (map fst d)" by simp
  ultimately show ?case by (simp add: dict_of_items_distinct)
next
  case (12 srt xs)
  then have "map (make_serializable srt) xs = xs"
    by (intro map_idI) (auto simp: list_all_iff)
  then show ?case by simp
qed simp_all


text \<open>
  Where every enum member met has a canonical value, the serializer's result is
  canonical: null, a boolean, a number, a string, a list of canonical values, or a dict
  of canonical values with str keys.
\<close>

theorem make_serializable_gives_canonical:
  "enum_values_canonical v \<longrightarrow> canonical (make_serializable srt v)"
  by (simp add: make_serializable_canonical)

theorem make_serializable_gives_canonical_witness:
  "enum_values_canonical
     (PDataclass [([110], PStr [116]), ([99], PTuple [PEnum (PStr [85, 80]), PPath [47, 116]])])
   \<and> make_serializable example_sorted
       (PDataclass [([110], PStr [116]), ([99], PTuple [PEnum (PStr [85, 80]), PPath [47, 116]])])
     = PDict [(KStr [110], PStr [116]), (KStr [99], PList [PStr [85, 80], PStr [47, 116]])]
   \<and> canonical (PDict [(KStr [110], PStr [116]), (KStr [99], PList [PStr [85, 80], PStr [47, 116]])])"
proof -
  have ok: "enum_values_canonical
     (PDataclass [([110], PStr [116]), ([99], PTuple [PEnum (PStr [85, 80]), PPath [47, 116]])])"
    by simp
  have result: "make_serializable example_sorted
       (PDataclass [([110], PStr [116]), ([99], PTuple [PEnum (PStr [85, 80]), PPath [47, 116]])])
     = PDict [(KStr [110], PStr [116]), (KStr [99], PList [PStr [85, 80], PStr [47, 116]])]"
    by (simp add: dict_of_items_def)
  note inst = make_serializable_gives_canonical
    [where srt = example_sorted
       and v = "PDataclass [([110], PStr [116]), ([99], PTuple [PEnum (PStr [85, 80]), PPath [47, 116]])]"]
  show ?thesis using ok result inst by simp
qed

text \<open>
  A canonical value is a fixed point of the serializer, and serializing twice is
  serializing once wherever every enum member met has a canonical value.
\<close>

theorem make_serializable_fixed_points:
  "(canonical v \<and> keys_distinct v \<longrightarrow> make_serializable srt v = v)
   \<and> (enum_values_canonical v \<and> keys_distinct (make_serializable srt v) \<longrightarrow>
        make_serializable srt (make_serializable srt v) = make_serializable srt v)"
  by (simp add: make_serializable_fixed_point make_serializable_canonical)

theorem make_serializable_fixed_points_witness:
  "canonical (PList [PDict [(KStr [110, 97, 109, 101], PStr [99, 49])]])
   \<and> keys_distinct (PList [PDict [(KStr [110, 97, 109, 101], PStr [99, 49])]])
   \<and> make_serializable example_sorted (PList [PDict [(KStr [110, 97, 109, 101], PStr [99, 49])]])
       = PList [PDict [(KStr [110, 97, 109, 101], PStr [99, 49])]]
   \<and> make_serializable example_sorted (make_serializable example_sorted (PSet [PInt 3, PInt 1, PInt 2]))
       = make_serializable example_sorted (PSet [PInt 3, PInt 1, PInt 2])"
proof -
  have sorted_ints: "make_serializable example_sorted (PSet [PInt 3, PInt 1, PInt 2])
      = PList [PInt 1, PInt 2, PInt 3]"
    by (simp add: example_sorted_def insertion_sorter.rep_eq insertion_sort_def)
  note fixed = make_serializable_fixed_points
    [where srt = example_sorted and v = "PList [PDict [(KStr [110, 97, 109, 101], PStr [99, 49])]]"]
  note twice = make_serializable_fixed_points
    [where srt = example_sorted and v = "PSet [PInt 3, PInt 1, PInt 2]"]
  show ?thesis using sorted_ints fixed twice by simp
qed


end
